theory Spec2Isabelle
  imports Main "HOL-Library.Multiset" "HOL-Library.Sublist"
begin

section \<open>Data model\<close>

text \<open>
  The handlers of \<^verbatim>\<open>backend/flaskr/__init__.py\<close> answer with \<^verbatim>\<open>jsonify({...})\<close> and read
  request bodies with \<^verbatim>\<open>request.get_json()\<close>. JSON values are modelled as a datatype; an
  object keeps its keys in the order the handler writes them. Numbers are integers only.
\<close>

datatype json =
    JNull
  | JBool bool
  | JInt int
  | JStr string
  | JArr "json list"
  | JObj "(string \<times> json) list"

text \<open>Reading a key of a response object (what a client does with the answer).\<close>

fun field :: "json \<Rightarrow> string \<Rightarrow> json option" where
  "field (JObj kvs) k = map_of kvs k"
| "field _ k = None"

text \<open>
  A row of the \<^verbatim>\<open>questions\<close> table and a row of the \<^verbatim>\<open>categories\<close> table. The columns are
  the ones the handlers read: \<^verbatim>\<open>question.id\<close>, \<^verbatim>\<open>question.question\<close>, \<^verbatim>\<open>Question.category\<close>
  (compared with \<^verbatim>\<open>str(id)\<close>, a string column), \<^verbatim>\<open>category.id\<close> and \<^verbatim>\<open>category.type\<close>.
\<close>

record Question =
  qid :: int
  question :: string
  answer :: string
  category :: string
  difficulty :: int

record Category =
  cid :: int
  ctype :: string

text \<open>
  The database as the handlers see it: \<^verbatim>\<open>Question.query.all()\<close> is \<open>questions\<close> and
  \<^verbatim>\<open>Category.query.all()\<close> is \<open>categories\<close>, both in listing order. \<open>next_id\<close> is the
  sequence from which the database assigns the id of a new question.
\<close>

record store =
  questions :: "Question list"
  categories :: "Category list"
  next_id :: int

text \<open>
  Exceptions as values. \<^verbatim>\<open>abort(400)\<close>, \<^verbatim>\<open>abort(404)\<close> and \<^verbatim>\<open>abort(422)\<close> raise werkzeug's
  \<^verbatim>\<open>BadRequest\<close>, \<^verbatim>\<open>NotFound\<close> and \<^verbatim>\<open>UnprocessableEntity\<close>, which the error handlers at the
  end of \<^verbatim>\<open>create_app\<close> turn into the 400, 404 and 422 answers (the specification calls the
  first one InvalidRequest). \<open>ValidationError\<close> is the exception of the repository's
  \<^verbatim>\<open>insert\<close> (section 4.1 of the specification) and \<open>InternalError\<close> stands for every other
  Python exception (TypeError, KeyError, MultipleResultsFound, a database error):
  uncaught, they are a 500. All of them are subclasses of Python's \<^verbatim>\<open>Exception\<close>.
\<close>

datatype error = BadRequest | NotFound | UnprocessableEntity | ValidationError | InternalError

definition abort :: "error \<Rightarrow> error + 'a" where
  "abort e = Inl e"

text \<open>
  The part of the Flask request the handlers read apart from the body:
  \<^verbatim>\<open>request.args.get("page", 1, type=int)\<close>. \<open>args_page\<close> is the converted \<^verbatim>\<open>page\<close> argument,
  \<open>None\<close> when the argument is absent or is not an integer (the default is used then).
\<close>

record request =
  args_page :: "int option"

section \<open>Python and database primitives\<close>

text \<open>
  Python's slice \<^verbatim>\<open>xs[start:stop]\<close> for integer bounds: a negative bound counts from the
  end, and both bounds are clamped to the list.
\<close>

definition py_slice :: "'a list \<Rightarrow> int \<Rightarrow> int \<Rightarrow> 'a list" where
  "py_slice xs start stop =
     (let n = int (length xs);
          s = (if start < 0 then max (start + n) 0 else min start n);
          e = (if stop < 0 then max (stop + n) 0 else min stop n)
      in take (nat (e - s)) (drop (nat s) xs))"

text \<open>
  Modelled from the spec: \<^verbatim>\<open>Question.format\<close> belongs to \<^verbatim>\<open>models.py\<close>, which is not among
  the sources; section 4.5 gives the display record \<^verbatim>\<open>{id, question, answer, category, difficulty}\<close>.
\<close>

definition format_q :: "Question \<Rightarrow> json" where
  "format_q q =
     JObj [(''id'', JInt (qid q)),
           (''question'', JStr (question q)),
           (''answer'', JStr (answer q)),
           (''category'', JStr (category q)),
           (''difficulty'', JInt (difficulty q))]"

section \<open>Paginator\<close>

definition QUESTIONS_PER_PAGE :: int where
  "QUESTIONS_PER_PAGE = 10"

text \<open>
  The body of \<^verbatim>\<open>paginate_questions\<close>, with the module constant \<^verbatim>\<open>QUESTIONS_PER_PAGE\<close> as
  the argument \<open>per_page\<close>.
\<close>

definition paginate_with :: "int \<Rightarrow> request \<Rightarrow> Question list \<Rightarrow> json list" where
  "paginate_with per_page req qs =
     (let page = (case args_page req of None \<Rightarrow> 1 | Some p \<Rightarrow> p);
          start = (page - 1) * per_page;
          stop = start + per_page;
          formated = map format_q qs;
          current_quastions = py_slice formated start stop
      in current_quastions)"

definition paginate_questions :: "request \<Rightarrow> Question list \<Rightarrow> json list" where
  "paginate_questions req qs = paginate_with QUESTIONS_PER_PAGE req qs"

section \<open>Listing\<close>

text \<open>\<^verbatim>\<open>GET /questions\<close>.\<close>

definition get_questions :: "request \<Rightarrow> store \<Rightarrow> error + json" where
  "get_questions req st =
     (let qs = questions st;
          formated = paginate_questions req qs
      in if length formated = 0 then abort NotFound
         else
           (let cats = categories st;
                category_dict = map (\<lambda>c. JStr (ctype c)) cats
            in Inr (JObj [(''success'', JBool True),
                          (''questions'', JArr formated),
                          (''total_questions'', JInt (int (length qs))),
                          (''categories'', JArr category_dict),
                          (''current_category'', JNull)])))"

section \<open>Python and database primitives used by the other handlers\<close>

text \<open>Python's \<^verbatim>\<open>str\<close> on an integer: decimal digits, a minus sign before a negative number.\<close>

definition digit_char :: "nat \<Rightarrow> char" where
  "digit_char d = ''0123456789'' ! d"

fun str_nat :: "nat \<Rightarrow> string" where
  "str_nat n = (if n < 10 then [digit_char n] else str_nat (n div 10) @ [digit_char (n mod 10)])"

declare str_nat.simps [simp del]

definition str_int :: "int \<Rightarrow> string" where
  "str_int i = (if i < 0 then CHR ''-'' # str_nat (nat (- i)) else str_nat (nat i))"

text \<open>
  \<^verbatim>\<open>Question.id == str(id)\<close> compares the integer column \<^verbatim>\<open>id\<close> with a string: the database
  reads the string as an integer literal (an optional minus sign, then digits) and
  compares the numbers. \<open>sql_int\<close> is that reading; \<open>None\<close> is a literal that is not an integer.
\<close>

definition digit_val :: "char \<Rightarrow> nat option" where
  "digit_val c = map_of (zip ''0123456789'' [0, 1, 2, 3, 4, 5, 6, 7, 8, 9]) c"

fun parse_digits :: "nat \<Rightarrow> string \<Rightarrow> nat option" where
  "parse_digits acc [] = Some acc"
| "parse_digits acc (c # cs) =
     (case digit_val c of None \<Rightarrow> None | Some d \<Rightarrow> parse_digits (10 * acc + d) cs)"

definition sql_int :: "string \<Rightarrow> int option" where
  "sql_int s =
     (case s of
        [] \<Rightarrow> None
      | c # cs \<Rightarrow>
          if c = CHR ''-''
          then (if cs = [] then None else map_option (\<lambda>n. - int n) (parse_digits 0 cs))
          else map_option int (parse_digits 0 s))"

text \<open>
  SQLAlchemy's \<^verbatim>\<open>one_or_none()\<close>: the only row, \<^verbatim>\<open>None\<close> when there is no row, and the
  exception MultipleResultsFound when there are several.
\<close>

fun one_or_none :: "'a list \<Rightarrow> error + 'a option" where
  "one_or_none [] = Inr None"
| "one_or_none [x] = Inr (Some x)"
| "one_or_none (x # y # zs) = Inl InternalError"

text \<open>
  \<^verbatim>\<open>try: ... except Exception as e: abort(422)\<close>: every exception raised in the body,
  the HTTP exceptions of \<^verbatim>\<open>abort\<close> included (they derive from \<^verbatim>\<open>Exception\<close>), is replaced
  by \<^verbatim>\<open>abort(422)\<close>.
\<close>

definition except_abort_422 :: "error + 'a \<Rightarrow> error + 'a" where
  "except_abort_422 body = (case body of Inl e \<Rightarrow> abort UnprocessableEntity | Inr v \<Rightarrow> Inr v)"

text \<open>
  Modelled from the spec: \<^verbatim>\<open>Question.delete\<close> belongs to \<^verbatim>\<open>models.py\<close>, which is not among
  the sources; section 4.1 says that \<^verbatim>\<open>delete\<close> removes the record. A row is identified by
  its primary key \<^verbatim>\<open>id\<close>.
\<close>

definition Question_delete :: "Question \<Rightarrow> store \<Rightarrow> error + store" where
  "Question_delete q st = Inr (st\<lparr>questions := filter (\<lambda>r. qid r \<noteq> qid q) (questions st)\<rparr>)"

section \<open>Delete\<close>

text \<open>
  \<^verbatim>\<open>DELETE /questions/<int:id>\<close> (the handler is named \<^verbatim>\<open>get_question\<close> in the source). The
  route's \<^verbatim>\<open>int\<close> converter yields a natural number. The handler returns its answer and the
  store it leaves behind.
\<close>

definition get_question :: "request \<Rightarrow> nat \<Rightarrow> store \<Rightarrow> (error + json) \<times> store" where
  "get_question req i st =
     (case one_or_none (filter (\<lambda>q. sql_int (str_int (int i)) = Some (qid q)) (questions st)) of
        Inl e \<Rightarrow> (Inl e, st)
      | Inr None \<Rightarrow> (abort NotFound, st)
      | Inr (Some q) \<Rightarrow>
          (case except_abort_422
                  (case Question_delete q st of
                     Inl e \<Rightarrow> Inl e
                   | Inr st' \<Rightarrow>
                       (let qs = questions st';
                            formated = paginate_questions req qs
                        in Inr (JObj [(''success'', JBool True),
                                      (''questions'', JArr formated),
                                      (''deleted'', JInt (int i))], st'))) of
             Inl e \<Rightarrow> (Inl e, st)
           | Inr (resp, st') \<Rightarrow> (Inr resp, st')))"

section \<open>List by category\<close>

text \<open>\<^verbatim>\<open>GET /categories/<int:id>/questions\<close>.\<close>

definition get_by_category :: "nat \<Rightarrow> store \<Rightarrow> error + json" where
  "get_by_category i st =
     (let qs = filter (\<lambda>q. category q = str_int (int i)) (questions st);
          questions_formated = map format_q qs
      in if length questions_formated = 0 then abort NotFound
         else Inr (JObj [(''success'', JBool True),
                         (''questions'', JArr questions_formated),
                         (''total_questions'', JInt (int (length questions_formated))),
                         (''current_category'', JStr (str_int (int i)))]))"

section \<open>Search\<close>

text \<open>
  The database's \<^verbatim>\<open>ILIKE\<close>. In a pattern \<^verbatim>\<open>%\<close> matches any sequence of characters, \<^verbatim>\<open>_\<close>
  matches any one character, and a backslash makes the next pattern character literal
  (PostgreSQL's default escape; \<^verbatim>\<open>test_flaskr.py\<close> connects to PostgreSQL). \<open>like\<close> takes
  the pattern first. \<^verbatim>\<open>ILIKE\<close> compares without regard to case: both sides are lowered
  (ASCII letters).
\<close>

definition lower_char :: "char \<Rightarrow> char" where
  "lower_char c =
     (case map_of (zip ''ABCDEFGHIJKLMNOPQRSTUVWXYZ'' ''abcdefghijklmnopqrstuvwxyz'') c of
        None \<Rightarrow> c
      | Some l \<Rightarrow> l)"

definition lower :: "string \<Rightarrow> string" where
  "lower s = map lower_char s"

fun like :: "string \<Rightarrow> string \<Rightarrow> bool" where
  "like [] [] = True"
| "like [] (c # cs) = False"
| "like (p # ps) [] = (p = CHR ''%'' \<and> like ps [])"
| "like (p # ps) (c # cs) =
     (if p = CHR ''%'' then like ps (c # cs) \<or> like (p # ps) cs
      else if p = CHR ''_'' then like ps cs
      else if p = CHR 0x5C then (case ps of [] \<Rightarrow> False | e # ps' \<Rightarrow> e = c \<and> like ps' cs)
      else p = c \<and> like ps cs)"

definition ilike :: "string \<Rightarrow> string \<Rightarrow> bool" where
  "ilike txt pattern = like (lower pattern) (lower txt)"

text \<open>
  A JSON request body is a Python dict: \<^verbatim>\<open>json_body.get(key, None)\<close> is \<^verbatim>\<open>None\<close> for a key
  that is absent and for a key whose value is \<^verbatim>\<open>null\<close>.
\<close>

type_synonym json_body = "string \<rightharpoonup> json"

definition dict_get :: "json_body \<Rightarrow> string \<Rightarrow> json" where
  "dict_get json_body k = (case json_body k of None \<Rightarrow> JNull | Some v \<Rightarrow> v)"

text \<open>
  \<^verbatim>\<open>search_question\<close>. \<^verbatim>\<open>"%" + search_term + "%"\<close> raises TypeError when the term is not a
  string.
\<close>

definition search_question :: "json_body \<Rightarrow> store \<Rightarrow> error + json" where
  "search_question json_body st =
     (case (case json_body ''searchTerm'' of None \<Rightarrow> JStr [] | Some v \<Rightarrow> v) of
        JStr search_term \<Rightarrow>
          (let qs = filter (\<lambda>q. ilike (question q) (''%'' @ search_term @ ''%'')) (questions st);
               formated = map format_q qs
           in if length formated = 0 then abort NotFound
              else Inr (JObj [(''success'', JBool True),
                              (''questions'', JArr formated),
                              (''total_questions'', JInt (int (length formated))),
                              (''current_category'', JNull)]))
      | _ \<Rightarrow> Inl InternalError)"

section \<open>Create\<close>

text \<open>
  \<^verbatim>\<open>insert_question\<close>. The constructor \<^verbatim>\<open>Question(question_str, answer, category, difficulty)\<close>
  and \<^verbatim>\<open>question.insert()\<close> belong to \<^verbatim>\<open>models.py\<close>, which is not among the sources: they
  are the argument \<open>Question_insert\<close>, which returns the inserted row (with the id the
  database assigned) and the new store, or raises. The whole body of the handler, its
  \<^verbatim>\<open>abort(400)\<close> included, stands inside the \<^verbatim>\<open>try\<close>.
\<close>

type_synonym inserter = "json \<Rightarrow> json \<Rightarrow> json \<Rightarrow> json \<Rightarrow> store \<Rightarrow> error + Question \<times> store"

definition insert_question :: "inserter \<Rightarrow> request \<Rightarrow> json_body \<Rightarrow> store \<Rightarrow> (error + json) \<times> store" where
  "insert_question Question_insert req json_body st =
     (case except_abort_422
             (let question_str = dict_get json_body ''question'';
                  answer_v = dict_get json_body ''answer'';
                  difficulty_v = dict_get json_body ''difficulty'';
                  category_v = dict_get json_body ''category''
              in if question_str = JNull \<or> answer_v = JNull \<or> difficulty_v = JNull \<or> category_v = JNull
                 then abort BadRequest
                 else
                   (case Question_insert question_str answer_v category_v difficulty_v st of
                      Inl e \<Rightarrow> Inl e
                    | Inr (q, st') \<Rightarrow>
                        (let qs = questions st';
                             paged_questions = paginate_questions req qs
                         in Inr (JObj [(''success'', JBool True),
                                       (''questions'', JArr paged_questions),
                                       (''created'', JInt (qid q)),
                                       (''question_created'', JStr (question q))], st')))) of
        Inl e \<Rightarrow> (Inl e, st)
      | Inr (resp, st') \<Rightarrow> (Inr resp, st'))"

text \<open>
  Modelled from the spec: \<^verbatim>\<open>Question.insert\<close> belongs to \<^verbatim>\<open>models.py\<close>, which is not among
  the sources. Section 4.1: \<^verbatim>\<open>insert\<close> fails with ValidationError if question, answer,
  difficulty or category is missing or empty, or if category does not resolve to an
  existing Category; otherwise it assigns the id. A category is referred to by its id,
  as a number or as the decimal string of the number.
\<close>

definition category_ref :: "json \<Rightarrow> string option" where
  "category_ref v = (case v of JStr s \<Rightarrow> Some s | JInt n \<Rightarrow> Some (str_int n) | _ \<Rightarrow> None)"

definition Question_insert_spec :: inserter where
  "Question_insert_spec question_str answer_v category_v difficulty_v st =
     (case question_str of
        JStr q \<Rightarrow>
          (case answer_v of
             JStr a \<Rightarrow>
               (case difficulty_v of
                  JInt d \<Rightarrow>
                    (case category_ref category_v of
                       None \<Rightarrow> Inl ValidationError
                     | Some c \<Rightarrow>
                         if q = [] \<or> a = [] \<or> c = []
                            \<or> c \<notin> set (map (\<lambda>k. str_int (cid k)) (categories st))
                         then Inl ValidationError
                         else
                           (let row = \<lparr>qid = next_id st, question = q, answer = a,
                                       category = c, difficulty = d\<rparr>
                            in Inr (row, st\<lparr>questions := questions st @ [row],
                                            next_id := next_id st + 1\<rparr>)))
                | _ \<Rightarrow> Inl ValidationError)
           | _ \<Rightarrow> Inl ValidationError)
      | _ \<Rightarrow> Inl ValidationError)"

text \<open>\<^verbatim>\<open>POST /questions\<close>: create when \<^verbatim>\<open>question\<close> is given, else search, else 400.\<close>

definition post_question :: "inserter \<Rightarrow> request \<Rightarrow> json_body \<Rightarrow> store \<Rightarrow> (error + json) \<times> store" where
  "post_question Question_insert req json_body st =
     (let question_str = dict_get json_body ''question'';
          search_term = dict_get json_body ''searchTerm''
      in if question_str \<noteq> JNull then insert_question Question_insert req json_body st
         else if search_term \<noteq> JNull then (search_question json_body st, st)
         else (abort BadRequest, st))"

section \<open>Quiz\<close>

text \<open>
  \<^verbatim>\<open>random.shuffle(x)\<close> of the Python library: for \<open>i\<close> from \<open>len(x) - 1\<close> down to \<open>1\<close>, draw
  \<open>j = randbelow(i + 1)\<close> and exchange \<open>x[i]\<close> and \<open>x[j]\<close>. The random source is the argument
  \<open>rand\<close>: \<open>rand i\<close> is the number drawn at index \<open>i\<close>, reduced into the range \<open>0..i\<close>.
\<close>

fun shuffle_from :: "nat \<Rightarrow> (nat \<Rightarrow> nat) \<Rightarrow> 'a list \<Rightarrow> 'a list" where
  "shuffle_from 0 rand xs = xs"
| "shuffle_from (Suc i) rand xs =
     (let j = rand (Suc i) mod (Suc i + 1)
      in shuffle_from i rand (xs[Suc i := xs ! j, j := xs ! Suc i]))"

definition shuffle :: "(nat \<Rightarrow> nat) \<Rightarrow> 'a list \<Rightarrow> 'a list" where
  "shuffle rand xs = shuffle_from (length xs - 1) rand xs"

text \<open>
  The loop of \<^verbatim>\<open>get_different_question\<close>: the first question whose id is not among the
  previous ones; falling off the end of the loop returns \<^verbatim>\<open>None\<close>.
\<close>

fun first_unseen :: "Question list \<Rightarrow> int list \<Rightarrow> Question option" where
  "first_unseen [] previous_questions = None"
| "first_unseen (q # qs) previous_questions =
     (if qid q \<notin> set previous_questions then Some q else first_unseen qs previous_questions)"

definition get_different_question :: "(nat \<Rightarrow> nat) \<Rightarrow> Question list \<Rightarrow> int list \<Rightarrow> Question option" where
  "get_different_question rand qs previous_questions =
     first_unseen (shuffle rand qs) previous_questions"

definition check_category :: "(nat \<Rightarrow> nat) \<Rightarrow> int \<Rightarrow> int list \<Rightarrow> store \<Rightarrow> error + Question option" where
  "check_category rand category_id previous_questions st =
     (let qs = (if category_id = 0 then questions st
                else filter (\<lambda>q. category q = str_int category_id) (questions st))
      in if length qs = 0 then abort NotFound
         else Inr (get_different_question rand qs previous_questions))"

text \<open>
  \<^verbatim>\<open>POST /quizzes\<close>. The body is read at the types the handler expects: a list of
  integer ids under \<^verbatim>\<open>previous_questions\<close> and an object with integer values under
  \<^verbatim>\<open>quiz_category\<close> (\<open>None\<close>: the key is absent or \<^verbatim>\<open>null\<close>). \<^verbatim>\<open>quiz_category['id']\<close> is
  evaluated before the check for missing keys: it raises TypeError on \<^verbatim>\<open>None\<close> and KeyError
  on an object without \<^verbatim>\<open>id\<close>.
\<close>

record quiz_body =
  previous_questions :: "int list option"
  quiz_category :: "(string \<rightharpoonup> int) option"

definition get_quizzes :: "(nat \<Rightarrow> nat) \<Rightarrow> quiz_body \<Rightarrow> store \<Rightarrow> error + json" where
  "get_quizzes rand json_body st =
     (case quiz_category json_body of
        None \<Rightarrow> Inl InternalError
      | Some quiz_cat \<Rightarrow>
          (case quiz_cat ''id'' of
             None \<Rightarrow> Inl InternalError
           | Some category_id \<Rightarrow>
               (case previous_questions json_body of
                  None \<Rightarrow> abort BadRequest
                | Some previous \<Rightarrow>
                    (case check_category rand category_id previous st of
                       Inl e \<Rightarrow> Inl e
                     | Inr (Some q) \<Rightarrow>
                         Inr (JObj [(''success'', JBool True), (''question'', format_q q)])
                     | Inr None \<Rightarrow>
                         Inr (JObj [(''success'', JBool True), (''question'', JNull)])))))"

section \<open>Example data\<close>

text \<open>Concrete rows and stores, on which the theorems below are instantiated.\<close>

definition example_question :: "int \<Rightarrow> string \<Rightarrow> string \<Rightarrow> Question" where
  "example_question i c t = \<lparr>qid = i, question = t, answer = ''42'', category = c, difficulty = 1\<rparr>"

definition example_categories :: "Category list" where
  "example_categories = [\<lparr>cid = 1, ctype = ''Science''\<rparr>, \<lparr>cid = 2, ctype = ''Art''\<rparr>]"

definition twelve_questions :: "Question list" where
  "twelve_questions =
     map (\<lambda>i. example_question i ''1'' ''Which one?'') [1, 2, 3, 4, 5, 6, 7, 8, 9, 10, 11, 12]"

definition twelve_store :: store where
  "twelve_store = \<lparr>questions = twelve_questions, categories = example_categories, next_id = 13\<rparr>"

definition empty_store :: store where
  "empty_store = \<lparr>questions = [], categories = example_categories, next_id = 1\<rparr>"

definition quiz_store :: store where
  "quiz_store =
     \<lparr>questions = [example_question 1 ''1'' ''What is the capital of France? Paris'',
                   example_question 2 ''1'' ''abc'',
                   example_question 3 ''2'' ''Who painted it?''],
      categories = example_categories,
      next_id = 4\<rparr>"

section \<open>Properties of the paginator\<close>

lemma py_slice_nonneg:
  assumes "0 \<le> start" and "start \<le> stop"
  shows "py_slice xs start stop = take (nat (stop - start)) (drop (nat start) xs)"
proof (cases "stop \<le> int (length xs)")
  case True
  with assms show ?thesis
    by (simp add: py_slice_def Let_def min_def)
next
  case False
  show ?thesis
  proof (cases "start \<le> int (length xs)")
    case True
    with False assms show ?thesis
      by (simp add: py_slice_def Let_def min_def)
  next
    case False
    with assms show ?thesis
      by (simp add: py_slice_def Let_def min_def)
  qed
qed

lemma paginate_with_slice:
  assumes "1 \<le> n" and "0 < p"
  shows "paginate_with p \<lparr>args_page = Some n\<rparr> qs =
           take (nat p) (drop (nat ((n - 1) * p)) (map format_q qs))"
proof -
  have "0 \<le> (n - 1) * p"
    using assms by simp
  moreover have "(n - 1) * p \<le> (n - 1) * p + p"
    using assms by simp
  ultimately have "py_slice (map format_q qs) ((n - 1) * p) ((n - 1) * p + p) =
      take (nat ((n - 1) * p + p - (n - 1) * p)) (drop (nat ((n - 1) * p)) (map format_q qs))"
    by (rule py_slice_nonneg)
  then show ?thesis
    by (simp add: paginate_with_def Let_def)
qed

text \<open>
  C4. For a page \<open>n \<ge> 1\<close> and a page size \<open>p > 0\<close> the paginator returns exactly the slice
  \<open>items[(n-1)*p : (n-1)*p + p]\<close> of the formatted questions: the \<open>p\<close> items after the first
  \<open>(n-1)*p\<close>, in their input order (the k-th item of the page is item \<open>(n-1)*p + k\<close> of the
  input), at most \<open>p\<close> of them, and none when the start index is at or beyond the end. The
  handlers' \<open>paginate_questions\<close> is the instance \<open>p = 10\<close>; a request without a page
  argument is page 1.
\<close>

theorem paginate_exact_slice:
  assumes "1 \<le> n" and "0 < p"
  shows "paginate_with p \<lparr>args_page = Some n\<rparr> qs =
           take (nat p) (drop (nat ((n - 1) * p)) (map format_q qs))
       \<and> length (paginate_with p \<lparr>args_page = Some n\<rparr> qs) \<le> nat p
       \<and> (\<forall>k < length (paginate_with p \<lparr>args_page = Some n\<rparr> qs).
             paginate_with p \<lparr>args_page = Some n\<rparr> qs ! k = format_q (qs ! (nat ((n - 1) * p) + k)))
       \<and> (int (length qs) \<le> (n - 1) * p \<longrightarrow> paginate_with p \<lparr>args_page = Some n\<rparr> qs = [])
       \<and> paginate_questions \<lparr>args_page = Some n\<rparr> qs =
           take 10 (drop (nat ((n - 1) * 10)) (map format_q qs))
       \<and> paginate_questions \<lparr>args_page = None\<rparr> qs = take 10 (map format_q qs)"
proof -
  let ?page = "paginate_with p \<lparr>args_page = Some n\<rparr> qs"
  have slice: "?page = take (nat p) (drop (nat ((n - 1) * p)) (map format_q qs))"
    using assms by (rule paginate_with_slice)
  have len: "length ?page \<le> nat p"
    by (simp add: slice)
  have nth: "\<forall>k < length ?page. ?page ! k = format_q (qs ! (nat ((n - 1) * p) + k))"
    by (auto simp: slice drop_map)
  have beyond: "int (length qs) \<le> (n - 1) * p \<longrightarrow> ?page = []"
    by (simp add: slice)
  have ten: "paginate_questions \<lparr>args_page = Some n\<rparr> qs =
      take 10 (drop (nat ((n - 1) * 10)) (map format_q qs))"
    using paginate_with_slice [of n 10 qs] assms(1)
    by (simp add: paginate_questions_def QUESTIONS_PER_PAGE_def)
  have first: "paginate_questions \<lparr>args_page = None\<rparr> qs = take 10 (map format_q qs)"
    using py_slice_nonneg [of 0 10 "map format_q qs"]
    by (simp add: paginate_questions_def QUESTIONS_PER_PAGE_def paginate_with_def)
  from slice len nth beyond ten first show ?thesis
    by blast
qed

theorem paginate_exact_slice_witness:
  "(1::int) \<le> 2 \<and> (0::int) < 10
 \<and> paginate_with 10 \<lparr>args_page = Some 2\<rparr> twelve_questions =
     [format_q (example_question 11 ''1'' ''Which one?''),
      format_q (example_question 12 ''1'' ''Which one?'')]
 \<and> length (paginate_with 10 \<lparr>args_page = Some 2\<rparr> twelve_questions) \<le> nat 10"
  using paginate_exact_slice [of 2 10 twelve_questions]
  by (simp add: twelve_questions_def)

section \<open>Properties of the listing\<close>

lemma py_slice_Nil: "py_slice [] a b = []"
  by (simp add: py_slice_def Let_def)

lemma paginate_questions_Nil: "paginate_questions req [] = []"
  by (simp add: paginate_questions_def paginate_with_def Let_def py_slice_Nil)

lemma paginate_questions_beyond:
  assumes "args_page req = Some n" and "1 \<le> n" and "int (length qs) \<le> (n - 1) * 10"
  shows "paginate_questions req qs = []"
proof -
  have req: "req = \<lparr>args_page = Some n\<rparr>"
    using assms(1) by (cases req) simp
  have "length qs \<le> nat ((n - 1) * 10)"
    using assms(3) by linarith
  then have "drop (nat ((n - 1) * 10)) (map format_q qs) = []"
    by simp
  moreover have "paginate_with 10 \<lparr>args_page = Some n\<rparr> qs =
      take (nat 10) (drop (nat ((n - 1) * 10)) (map format_q qs))"
    using assms(2) by (intro paginate_with_slice) simp_all
  ultimately show ?thesis
    by (simp only: req paginate_questions_def QUESTIONS_PER_PAGE_def take.simps)
qed

lemma twelve_questions_page_2:
  "paginate_questions \<lparr>args_page = Some 2\<rparr> twelve_questions =
     [format_q (example_question 11 ''1'' ''Which one?''),
      format_q (example_question 12 ''1'' ''Which one?'')]"
  by (simp add: twelve_questions_def paginate_questions_def paginate_with_def
      QUESTIONS_PER_PAGE_def py_slice_def Let_def)

lemma twelve_questions_page_3:
  "paginate_questions \<lparr>args_page = Some 3\<rparr> twelve_questions = []"
  by (simp add: twelve_questions_def paginate_questions_def paginate_with_def
      QUESTIONS_PER_PAGE_def py_slice_def Let_def)

text \<open>
  C3. \<open>get_questions\<close> fails with NotFound exactly when the page that the paginator
  computes is empty, and it fails in no other way: a non-empty page is a success whose
  \<open>questions\<close> are that page and whose \<open>total_questions\<close> is the number of all questions of
  the store, not of the page. Both causes give the empty page: a store without
  questions, and a page number beyond the last page.
\<close>

theorem get_questions_not_found_iff:
  "(get_questions req st = Inl NotFound \<longleftrightarrow> paginate_questions req (questions st) = [])
 \<and> (paginate_questions req (questions st) \<noteq> [] \<longrightarrow>
      (\<exists>r. get_questions req st = Inr r
         \<and> field r ''questions'' = Some (JArr (paginate_questions req (questions st)))
         \<and> field r ''total_questions'' = Some (JInt (int (length (questions st))))))
 \<and> (questions st = [] \<longrightarrow> get_questions req st = Inl NotFound)
 \<and> (\<forall>n. args_page req = Some n \<and> 1 \<le> n \<and> int (length (questions st)) \<le> (n - 1) * 10 \<longrightarrow>
        get_questions req st = Inl NotFound)"
proof -
  let ?page = "paginate_questions req (questions st)"
  have iff: "get_questions req st = Inl NotFound \<longleftrightarrow> ?page = []"
    by (simp add: get_questions_def Let_def abort_def)
  have ok: "?page \<noteq> [] \<longrightarrow>
      (\<exists>r. get_questions req st = Inr r
         \<and> field r ''questions'' = Some (JArr ?page)
         \<and> field r ''total_questions'' = Some (JInt (int (length (questions st)))))"
    by (simp add: get_questions_def Let_def)
  have none: "questions st = [] \<longrightarrow> get_questions req st = Inl NotFound"
    by (simp add: iff paginate_questions_Nil)
  have beyond: "\<forall>n. args_page req = Some n \<and> 1 \<le> n \<and> int (length (questions st)) \<le> (n - 1) * 10 \<longrightarrow>
        get_questions req st = Inl NotFound"
    using iff paginate_questions_beyond by blast
  from iff ok none beyond show ?thesis
    by blast
qed

theorem get_questions_not_found_iff_witness:
  "get_questions \<lparr>args_page = Some 3\<rparr> twelve_store = Inl NotFound
 \<and> get_questions \<lparr>args_page = None\<rparr> empty_store = Inl NotFound
 \<and> (\<exists>r. get_questions \<lparr>args_page = Some 2\<rparr> twelve_store = Inr r
        \<and> field r ''questions'' =
            Some (JArr [format_q (example_question 11 ''1'' ''Which one?''),
                        format_q (example_question 12 ''1'' ''Which one?'')])
        \<and> field r ''total_questions'' = Some (JInt 12))"
  using get_questions_not_found_iff [of "\<lparr>args_page = Some 3\<rparr>" twelve_store]
    get_questions_not_found_iff [of "\<lparr>args_page = None\<rparr>" empty_store]
    get_questions_not_found_iff [of "\<lparr>args_page = Some 2\<rparr>" twelve_store]
  by (simp add: twelve_store_def empty_store_def twelve_questions_page_2 twelve_questions_page_3)
     (simp add: twelve_questions_def)

section \<open>Properties of the quiz selector\<close>

lemma shuffle_from_mset: "i < length xs \<Longrightarrow> mset (shuffle_from i rand xs) = mset xs"
proof (induction i arbitrary: xs)
  case 0
  then show ?case by simp
next
  case (Suc i)
  let ?j = "rand (Suc i) mod (Suc i + 1)"
  have "?j < Suc i + 1"
    by (rule mod_less_divisor) simp
  then have j: "?j < length xs"
    using Suc.prems by linarith
  have "mset (xs[Suc i := xs ! ?j, ?j := xs ! Suc i]) = mset xs"
    using mset_swap [OF j Suc.prems] .
  moreover have "i < length (xs[Suc i := xs ! ?j, ?j := xs ! Suc i])"
    using Suc.prems by simp
  ultimately show ?case
    using Suc.IH [of "xs[Suc i := xs ! ?j, ?j := xs ! Suc i]"] by (simp add: Let_def)
qed

lemma shuffle_mset: "mset (shuffle rand xs) = mset xs"
proof (cases xs)
  case Nil
  then show ?thesis by (simp add: shuffle_def)
next
  case (Cons x ys)
  then show ?thesis by (simp add: shuffle_def shuffle_from_mset)
qed

lemma shuffle_set: "set (shuffle rand xs) = set xs"
  using shuffle_mset [of rand xs] by (metis set_mset_mset)

lemma first_unseen_None:
  "first_unseen qs prev = None \<longleftrightarrow> (\<forall>q \<in> set qs. qid q \<in> set prev)"
  by (induction qs) auto

lemma first_unseen_Some:
  "first_unseen qs prev = Some q \<Longrightarrow> q \<in> set qs \<and> qid q \<notin> set prev"
  by (induction qs) (auto split: if_splits)

lemma get_different_question_Some:
  "get_different_question rand qs prev = Some q \<Longrightarrow> q \<in> set qs \<and> qid q \<notin> set prev"
  using first_unseen_Some [of "shuffle rand qs" prev q]
  by (simp add: get_different_question_def shuffle_set)

lemma get_different_question_None:
  "get_different_question rand qs prev = None \<longleftrightarrow> (\<forall>q \<in> set qs. qid q \<in> set prev)"
  by (simp add: get_different_question_def first_unseen_None shuffle_set)

lemma check_category_eq:
  "check_category rand cat_id prev st =
     (if (if cat_id = 0 then questions st
          else filter (\<lambda>q. category q = str_int cat_id) (questions st)) = []
      then Inl NotFound
      else Inr (get_different_question rand
                  (if cat_id = 0 then questions st
                   else filter (\<lambda>q. category q = str_int cat_id) (questions st)) prev))"
  by (simp add: check_category_def Let_def abort_def)


lemma pool_empty_iff:
  "(if cat_id = 0 then questions st
    else filter (\<lambda>q. category q = str_int cat_id) (questions st)) = [] \<longleftrightarrow>
   (if cat_id = 0 then questions st = []
    else \<forall>q \<in> set (questions st). category q \<noteq> str_int cat_id)"
  by (simp add: filter_empty_conv)

lemma check_category_NotFound_iff:
  "check_category rand cat_id prev st = Inl NotFound \<longleftrightarrow>
     (if cat_id = 0 then questions st = []
      else \<forall>q \<in> set (questions st). category q \<noteq> str_int cat_id)"
  unfolding pool_empty_iff [symmetric] check_category_eq [of rand cat_id prev st]
  by (cases "cat_id = 0") auto


lemma check_category_only_NotFound:
  "\<forall>e. check_category rand cat_id prev st = Inl e \<longrightarrow> e = NotFound"
  unfolding check_category_eq [of rand cat_id prev st]
  by (simp split: if_splits)

lemma check_category_member:
  "\<forall>q. check_category rand cat_id prev st = Inr (Some q) \<longrightarrow>
        q \<in> set (questions st) \<and> (cat_id \<noteq> 0 \<longrightarrow> category q = str_int cat_id)"
proof (intro allI impI)
  fix q
  let ?pool = "if cat_id = 0 then questions st
               else filter (\<lambda>q. category q = str_int cat_id) (questions st)"
  assume "check_category rand cat_id prev st = Inr (Some q)"
  then have "get_different_question rand ?pool prev = Some q"
    unfolding check_category_eq [of rand cat_id prev st]
    by (simp split: if_splits)
  then have "q \<in> set ?pool"
    using get_different_question_Some by blast
  then show "q \<in> set (questions st) \<and> (cat_id \<noteq> 0 \<longrightarrow> category q = str_int cat_id)"
    by (cases "cat_id = 0") simp_all
qed

lemma get_quizzes_eq:
  "get_quizzes rand \<lparr>previous_questions = Some prev, quiz_category = Some [''id'' \<mapsto> cat_id]\<rparr> st =
     (case check_category rand cat_id prev st of
        Inl e \<Rightarrow> Inl e
      | Inr (Some q) \<Rightarrow> Inr (JObj [(''success'', JBool True), (''question'', format_q q)])
      | Inr None \<Rightarrow> Inr (JObj [(''success'', JBool True), (''question'', JNull)]))"
  by (simp add: get_quizzes_def abort_def)

lemma get_quizzes_NotFound_iff:
  "get_quizzes rand \<lparr>previous_questions = Some prev, quiz_category = Some [''id'' \<mapsto> cat_id]\<rparr> st
       = Inl NotFound \<longleftrightarrow>
      (if cat_id = 0 then questions st = []
       else \<forall>q \<in> set (questions st). category q \<noteq> str_int cat_id)"
proof -
  have "get_quizzes rand \<lparr>previous_questions = Some prev, quiz_category = Some [''id'' \<mapsto> cat_id]\<rparr> st
       = Inl NotFound \<longleftrightarrow> check_category rand cat_id prev st = Inl NotFound"
    unfolding get_quizzes_eq by (simp split: sum.splits option.splits)
  then show ?thesis
    by (simp only: check_category_NotFound_iff)
qed

text \<open>
  C6. The pool of \<open>check_category\<close> (the specification's nextQuestion) is every question
  when the category id is 0 and otherwise the questions whose category column is the
  decimal string of the id; the call fails, with NotFound and nothing else, exactly when
  that pool is empty, and a question it returns belongs to the pool. \<open>get_quizzes\<close> passes
  the failure on.
\<close>

theorem check_category_pool:
  "check_category rand cat_id prev st =
     (if (if cat_id = 0 then questions st
          else filter (\<lambda>q. category q = str_int cat_id) (questions st)) = []
      then Inl NotFound
      else Inr (get_different_question rand
                  (if cat_id = 0 then questions st
                   else filter (\<lambda>q. category q = str_int cat_id) (questions st)) prev))
 \<and> (check_category rand cat_id prev st = Inl NotFound \<longleftrightarrow>
      (if cat_id = 0 then questions st = []
       else \<forall>q \<in> set (questions st). category q \<noteq> str_int cat_id))
 \<and> (\<forall>e. check_category rand cat_id prev st = Inl e \<longrightarrow> e = NotFound)
 \<and> (\<forall>q. check_category rand cat_id prev st = Inr (Some q) \<longrightarrow>
        q \<in> set (questions st) \<and> (cat_id \<noteq> 0 \<longrightarrow> category q = str_int cat_id))
 \<and> (get_quizzes rand \<lparr>previous_questions = Some prev, quiz_category = Some [''id'' \<mapsto> cat_id]\<rparr> st
       = Inl NotFound \<longleftrightarrow>
      (if cat_id = 0 then questions st = []
       else \<forall>q \<in> set (questions st). category q \<noteq> str_int cat_id))"
  by (intro conjI check_category_eq check_category_NotFound_iff check_category_only_NotFound
      check_category_member get_quizzes_NotFound_iff)

lemma str_int_examples:
  "str_int 1 = ''1''" "str_int 2 = ''2''" "str_int 3 = ''3''" "str_int 5 = ''5''"
  by (simp_all add: str_int_def str_nat.simps digit_char_def)

theorem check_category_pool_witness:
  "check_category (\<lambda>i. 0) 5 [] quiz_store = Inl NotFound
 \<and> check_category (\<lambda>i. 0) 0 [] empty_store = Inl NotFound
 \<and> check_category (\<lambda>i. 0) 2 [] quiz_store
     = Inr (Some (example_question 3 ''2'' ''Who painted it?''))
 \<and> get_quizzes (\<lambda>i. 0) \<lparr>previous_questions = Some [], quiz_category = Some [''id'' \<mapsto> 5]\<rparr> quiz_store
     = Inl NotFound"
  using check_category_pool [of "\<lambda>i. 0" 5 "[]" quiz_store]
    check_category_pool [of "\<lambda>i. 0" 0 "[]" empty_store]
    check_category_pool [of "\<lambda>i. 0" 2 "[]" quiz_store]
  by (simp add: quiz_store_def empty_store_def example_question_def str_int_examples
      get_different_question_def shuffle_def)

lemma check_category_unseen:
  "\<forall>q. check_category rand cat_id prev st = Inr (Some q) \<longrightarrow> qid q \<notin> set prev"
proof (intro allI impI)
  fix q
  let ?pool = "if cat_id = 0 then questions st
               else filter (\<lambda>q. category q = str_int cat_id) (questions st)"
  assume "check_category rand cat_id prev st = Inr (Some q)"
  then have "get_different_question rand ?pool prev = Some q"
    unfolding check_category_eq [of rand cat_id prev st]
    by (simp split: if_splits)
  then show "qid q \<notin> set prev"
    using get_different_question_Some by blast
qed

lemma check_category_exhausted:
  "(if cat_id = 0 then questions st
    else filter (\<lambda>q. category q = str_int cat_id) (questions st)) \<noteq> [] \<Longrightarrow>
   check_category rand cat_id prev st = Inr None \<longleftrightarrow>
     (\<forall>q \<in> set (if cat_id = 0 then questions st
                  else filter (\<lambda>q. category q = str_int cat_id) (questions st)).
        qid q \<in> set prev)"
  unfolding check_category_eq [of rand cat_id prev st]
  by (simp only: if_False sum.inject get_different_question_None)

lemma get_quizzes_unseen:
  "\<forall>r. get_quizzes rand \<lparr>previous_questions = Some prev, quiz_category = Some [''id'' \<mapsto> cat_id]\<rparr> st
          = Inr r \<longrightarrow>
       field r ''question'' = Some JNull
     \<or> (\<exists>q. field r ''question'' = Some (format_q q) \<and> qid q \<notin> set prev)"
proof (intro allI impI)
  fix r
  assume a: "get_quizzes rand \<lparr>previous_questions = Some prev, quiz_category = Some [''id'' \<mapsto> cat_id]\<rparr> st
          = Inr r"
  show "field r ''question'' = Some JNull
     \<or> (\<exists>q. field r ''question'' = Some (format_q q) \<and> qid q \<notin> set prev)"
  proof (cases "check_category rand cat_id prev st")
    case (Inl e)
    with a show ?thesis by (simp add: get_quizzes_eq)
  next
    case (Inr res)
    show ?thesis
    proof (cases res)
      case None
      with a Inr show ?thesis by (auto simp: get_quizzes_eq)
    next
      case (Some q)
      with Inr have "qid q \<notin> set prev"
        using check_category_unseen by blast
      with a Inr Some show ?thesis by (auto simp: get_quizzes_eq)
    qed
  qed
qed


lemma get_quizzes_exhausted:
  assumes "(if cat_id = 0 then questions st
            else filter (\<lambda>q. category q = str_int cat_id) (questions st)) \<noteq> []"
    and "\<forall>q \<in> set (if cat_id = 0 then questions st
                     else filter (\<lambda>q. category q = str_int cat_id) (questions st)).
           qid q \<in> set prev"
  shows "get_quizzes rand \<lparr>previous_questions = Some prev, quiz_category = Some [''id'' \<mapsto> cat_id]\<rparr> st
           = Inr (JObj [(''success'', JBool True), (''question'', JNull)])"
proof -
  have "check_category rand cat_id prev st = Inr None"
    using check_category_exhausted [OF assms(1)] assms(2) by blast
  then show ?thesis
    by (simp add: get_quizzes_eq)
qed

text \<open>
  C1, as stated, fails on the empty pool: every question of an empty pool is among the
  previous ones, and the call fails with NotFound instead of returning none.
\<close>

theorem next_question_counterexample:
  "check_category (\<lambda>i. 0) 0 [] empty_store = Inl NotFound
 \<and> get_quizzes (\<lambda>i. 0) \<lparr>previous_questions = Some [], quiz_category = Some [''id'' \<mapsto> 0]\<rparr> empty_store
     = Inl NotFound
 \<and> \<not> (\<forall>rand cat_id prev st.
        (\<forall>q \<in> set (if cat_id = 0 then questions st
                     else filter (\<lambda>q. category q = str_int cat_id) (questions st)).
           qid q \<in> set prev) \<longrightarrow>
        check_category rand cat_id prev st = Inr None)"
proof -
  have a: "check_category (\<lambda>i. 0) 0 [] empty_store = Inl NotFound"
    by (simp add: check_category_def empty_store_def abort_def)
  have b: "get_quizzes (\<lambda>i. 0) \<lparr>previous_questions = Some [], quiz_category = Some [''id'' \<mapsto> 0]\<rparr> empty_store
     = Inl NotFound"
    by (simp add: get_quizzes_eq a)
  have c: "\<not> (\<forall>rand cat_id prev st.
        (\<forall>q \<in> set (if cat_id = 0 then questions st
                     else filter (\<lambda>q. category q = str_int cat_id) (questions st)).
           qid q \<in> set prev) \<longrightarrow>
        check_category rand cat_id prev st = Inr None)"
  proof
    assume h: "\<forall>rand cat_id prev st.
        (\<forall>q \<in> set (if cat_id = 0 then questions st
                     else filter (\<lambda>q. category q = str_int cat_id) (questions st)).
           qid q \<in> set prev) \<longrightarrow>
        check_category rand cat_id prev st = Inr None"
    have "\<forall>q \<in> set (if (0::int) = 0 then questions empty_store
                     else filter (\<lambda>q. category q = str_int 0) (questions empty_store)).
           qid q \<in> set []"
      by (simp add: empty_store_def)
    with h have "check_category (\<lambda>i. 0) 0 [] empty_store = Inr None"
      by blast
    with a show False by simp
  qed
  from a b c show ?thesis by blast
qed

text \<open>
  C1 (amended). A question that \<open>check_category\<close> returns never has its id among the
  previous ids, and the question of a \<open>get_quizzes\<close> answer is either null or such a
  question; when the pool is not empty and every question of the pool has its id among
  the previous ids, the result is none, which \<open>get_quizzes\<close> answers as a success with a
  null question.
\<close>

theorem next_question_unseen:
  "(\<forall>q. check_category rand cat_id prev st = Inr (Some q) \<longrightarrow> qid q \<notin> set prev)
 \<and> (\<forall>r. get_quizzes rand \<lparr>previous_questions = Some prev, quiz_category = Some [''id'' \<mapsto> cat_id]\<rparr> st
          = Inr r \<longrightarrow>
       field r ''question'' = Some JNull
     \<or> (\<exists>q. field r ''question'' = Some (format_q q) \<and> qid q \<notin> set prev))
 \<and> ((if cat_id = 0 then questions st
      else filter (\<lambda>q. category q = str_int cat_id) (questions st)) \<noteq> [] \<longrightarrow>
     (\<forall>q \<in> set (if cat_id = 0 then questions st
                  else filter (\<lambda>q. category q = str_int cat_id) (questions st)).
        qid q \<in> set prev) \<longrightarrow>
       check_category rand cat_id prev st = Inr None
     \<and> get_quizzes rand \<lparr>previous_questions = Some prev, quiz_category = Some [''id'' \<mapsto> cat_id]\<rparr> st
          = Inr (JObj [(''success'', JBool True), (''question'', JNull)]))"
proof (intro conjI impI)
  show "\<forall>q. check_category rand cat_id prev st = Inr (Some q) \<longrightarrow> qid q \<notin> set prev"
    by (rule check_category_unseen)
  show "\<forall>r. get_quizzes rand \<lparr>previous_questions = Some prev, quiz_category = Some [''id'' \<mapsto> cat_id]\<rparr> st
          = Inr r \<longrightarrow>
       field r ''question'' = Some JNull
     \<or> (\<exists>q. field r ''question'' = Some (format_q q) \<and> qid q \<notin> set prev)"
    by (rule get_quizzes_unseen)
next
  assume ne: "(if cat_id = 0 then questions st
      else filter (\<lambda>q. category q = str_int cat_id) (questions st)) \<noteq> []"
    and all: "\<forall>q \<in> set (if cat_id = 0 then questions st
                  else filter (\<lambda>q. category q = str_int cat_id) (questions st)).
        qid q \<in> set prev"
  show "check_category rand cat_id prev st = Inr None"
    using check_category_exhausted [OF ne] all by blast
  show "get_quizzes rand \<lparr>previous_questions = Some prev, quiz_category = Some [''id'' \<mapsto> cat_id]\<rparr> st
          = Inr (JObj [(''success'', JBool True), (''question'', JNull)])"
    using ne all by (rule get_quizzes_exhausted)
qed

theorem next_question_unseen_witness:
  "check_category (\<lambda>i. 0) 1 [1, 2] quiz_store = Inr None
 \<and> get_quizzes (\<lambda>i. 0) \<lparr>previous_questions = Some [1, 2], quiz_category = Some [''id'' \<mapsto> 1]\<rparr> quiz_store
     = Inr (JObj [(''success'', JBool True), (''question'', JNull)])
 \<and> check_category (\<lambda>i. 0) 2 [1, 2] quiz_store
     = Inr (Some (example_question 3 ''2'' ''Who painted it?''))
 \<and> qid (example_question 3 ''2'' ''Who painted it?'') \<notin> set [1, 2]"
  using next_question_unseen [of "\<lambda>i. 0" 1 "[1, 2]" quiz_store]
    next_question_unseen [of "\<lambda>i. 0" 2 "[1, 2]" quiz_store]
  by (simp add: quiz_store_def example_question_def str_int_examples
      check_category_def get_different_question_def shuffle_def abort_def)

section \<open>Properties of the listing by category\<close>

lemma get_by_category_eq:
  "get_by_category i st =
     (if filter (\<lambda>q. category q = str_int (int i)) (questions st) = [] then Inl NotFound
      else Inr (JObj [(''success'', JBool True),
                      (''questions'',
                         JArr (map format_q (filter (\<lambda>q. category q = str_int (int i)) (questions st)))),
                      (''total_questions'',
                         JInt (int (length (filter (\<lambda>q. category q = str_int (int i)) (questions st))))),
                      (''current_category'', JStr (str_int (int i)))]))"
  by (simp add: get_by_category_def Let_def abort_def)

text \<open>
  C9. \<open>get_by_category\<close> fails, with NotFound and nothing else, exactly when no question
  has the category (the handler cannot tell a category that does not exist from one
  without questions: it never reads the categories). Otherwise it answers with the
  matching questions in listing order, their number as \<open>total_questions\<close>, and the decimal
  string of the id as \<open>current_category\<close>.
\<close>

theorem get_by_category_not_found_iff:
  "(get_by_category i st = Inl NotFound \<longleftrightarrow>
      (\<forall>q \<in> set (questions st). category q \<noteq> str_int (int i)))
 \<and> (\<forall>e. get_by_category i st = Inl e \<longrightarrow> e = NotFound)
 \<and> ((\<exists>q \<in> set (questions st). category q = str_int (int i)) \<longrightarrow>
      (\<exists>r. get_by_category i st = Inr r
         \<and> field r ''questions'' =
             Some (JArr (map format_q (filter (\<lambda>q. category q = str_int (int i)) (questions st))))
         \<and> field r ''total_questions'' =
             Some (JInt (int (length (filter (\<lambda>q. category q = str_int (int i)) (questions st)))))
         \<and> field r ''current_category'' = Some (JStr (str_int (int i)))))"
proof (intro conjI)
  show "get_by_category i st = Inl NotFound \<longleftrightarrow>
      (\<forall>q \<in> set (questions st). category q \<noteq> str_int (int i))"
    unfolding get_by_category_eq by (simp add: filter_empty_conv)
  show "\<forall>e. get_by_category i st = Inl e \<longrightarrow> e = NotFound"
    unfolding get_by_category_eq by (simp split: if_splits)
  show "(\<exists>q \<in> set (questions st). category q = str_int (int i)) \<longrightarrow>
      (\<exists>r. get_by_category i st = Inr r
         \<and> field r ''questions'' =
             Some (JArr (map format_q (filter (\<lambda>q. category q = str_int (int i)) (questions st))))
         \<and> field r ''total_questions'' =
             Some (JInt (int (length (filter (\<lambda>q. category q = str_int (int i)) (questions st)))))
         \<and> field r ''current_category'' = Some (JStr (str_int (int i))))"
    unfolding get_by_category_eq by (simp add: filter_empty_conv)
qed

theorem get_by_category_not_found_iff_witness:
  "get_by_category 5 quiz_store = Inl NotFound
 \<and> (\<exists>r. get_by_category 1 quiz_store = Inr r
        \<and> field r ''questions'' =
            Some (JArr [format_q (example_question 1 ''1'' ''What is the capital of France? Paris''),
                        format_q (example_question 2 ''1'' ''abc'')])
        \<and> field r ''total_questions'' = Some (JInt 2)
        \<and> field r ''current_category'' = Some (JStr ''1''))"
  using get_by_category_not_found_iff [of 5 quiz_store]
    get_by_category_not_found_iff [of 1 quiz_store]
  by (simp add: quiz_store_def example_question_def str_int_examples)

end
